theory Spec2Isabelle
  imports Main "HOL-Library.Char_ord" "HOL-Library.List_Lexorder" "HOL-Library.Multiset"
begin

section \<open>Shared data: JSON values, requests and responses\<close>

text \<open>
  JavaScript values of type \<open>any\<close> (request bodies, \<open>recipientDetails\<close>, \<open>metadata\<close>)
  are JSON values. \<open>JUndefined\<close> stands for a property that is absent.
\<close>

datatype json =
    JUndefined
  | JNull
  | JBool bool
  | JNum int
  | JStr string
  | JObj "(string \<times> json) list"

text \<open>
  A request as the service worker sees it: \<open>req_body\<close> is the outcome of
  \<open>request.json()\<close>, \<open>None\<close> when the body is not valid JSON (the call throws).
\<close>

record request =
  req_method :: string
  req_url :: string
  req_pathname :: string
  req_body :: "json option"

datatype resp_body = JsonBody json | OpaqueBody string

record response =
  status :: nat
  headers :: "(string \<times> string) list"
  body :: resp_body

definition resp_ok :: "response \<Rightarrow> bool" where
  "resp_ok r = (200 \<le> status r \<and> status r \<le> 299)"

text \<open>\<open>String.prototype.startsWith\<close>: \<open>startsWith s p\<close> is \<open>s.startsWith(p)\<close>.\<close>

fun startsWith :: "string \<Rightarrow> string \<Rightarrow> bool" where
  "startsWith s [] = True"
| "startsWith [] (p # ps) = False"
| "startsWith (c # cs) (p # ps) = (c = p \<and> startsWith cs ps)"

text \<open>\<open>Array.prototype.some\<close>.\<close>

definition some :: "'a list \<Rightarrow> ('a \<Rightarrow> bool) \<Rightarrow> bool" where
  "some xs P = list_ex P xs"

section \<open>The service worker (network interception layer)\<close>

definition CACHEABLE_API_ENDPOINTS :: "string list" where
  "CACHEABLE_API_ENDPOINTS =
     [''/api/auth/me'', ''/api/wallet'', ''/api/virtual-account'',
      ''/api/banks'', ''/api/beneficiaries'', ''/api/transactions'']"

definition NON_CACHEABLE_ENDPOINTS :: "string list" where
  "NON_CACHEABLE_ENDPOINTS =
     [''/api/auth/login'', ''/api/auth/logout'', ''/api/auth/register'',
      ''/api/auth/verify-otp'', ''/api/transfer/'', ''/api/webhooks/'']"

text \<open>A record of the worker's \<open>offlineQueue\<close> object store (key path \<open>id\<close>).\<close>

record sw_queued =
  sq_id :: string
  sq_endpoint :: string
  sq_method :: string
  sq_body :: json
  sq_timestamp :: int

text \<open>
  What the worker can touch: the API cache (keyed by request URL), its IndexedDB object
  store (\<open>sw_db_opens\<close> is whether \<open>indexedDB.open\<close> succeeds), and the network. The
  network is the function \<open>net\<close> passed to each handler (\<open>None\<close>: \<open>fetch\<close> throws,
  the network is unreachable); every call of \<open>fetch\<close> is recorded in \<open>fetch_log\<close>.
\<close>

record sw_world =
  api_cache :: "(string \<times> response) list"
  sw_db_opens :: bool
  offlineQueue :: "sw_queued list"
  fetch_log :: "request list"

datatype sw_error = JsonSyntaxError

type_synonym network = "request \<Rightarrow> response option"

definition do_fetch :: "network \<Rightarrow> request \<Rightarrow> sw_world \<Rightarrow> response option \<times> sw_world" where
  "do_fetch net req w = (net req, w\<lparr>fetch_log := fetch_log w @ [req]\<rparr>)"

text \<open>The three synthetic responses the worker builds for API requests.\<close>

definition json_headers :: "(string \<times> string) list" where
  "json_headers = [(''content-type'', ''application/json'')]"

definition network_unavailable_response :: response where
  "network_unavailable_response =
     \<lparr>status = 503, headers = json_headers,
      body = JsonBody (JObj [(''error'', JStr ''Network unavailable''),
        (''message'', JStr ''This request requires an internet connection.'')])\<rparr>"

definition offline_response :: response where
  "offline_response =
     \<lparr>status = 503, headers = json_headers,
      body = JsonBody (JObj [(''error'', JStr ''Offline''),
        (''message'', JStr ''You are offline and this data is not cached.'')])\<rparr>"

definition queued_response :: response where
  "queued_response =
     \<lparr>status = 202, headers = json_headers,
      body = JsonBody (JObj [(''success'', JBool True),
        (''message'', JStr ''Transaction queued for processing when back online.''),
        (''offline'', JBool True)])\<rparr>"

subsection \<open>Decimal printing and \<open>parseInt\<close>\<close>

definition digit_char :: "nat \<Rightarrow> char" where
  "digit_char d = ''0123456789'' ! d"

fun nat_toString :: "nat \<Rightarrow> string" where
  "nat_toString n =
     (if n < 10 then [digit_char n] else nat_toString (n div 10) @ [digit_char (n mod 10)])"

declare nat_toString.simps [simp del]

text \<open>\<open>Date.now().toString()\<close>; the clock is a non-negative number of milliseconds.\<close>

definition int_toString :: "int \<Rightarrow> string" where
  "int_toString i = (if i < 0 then CHR ''-'' # nat_toString (nat (- i)) else nat_toString (nat i))"

definition isWhite :: "char \<Rightarrow> bool" where
  "isWhite c = (c = CHR '' '' \<or> c = CHR 0x09 \<or> c = CHR 0x0A \<or> c = CHR 0x0B
                \<or> c = CHR 0x0C \<or> c = CHR 0x0D)"

text \<open>The value of a character as a digit, for radix up to 36.\<close>

definition digitVal :: "char \<Rightarrow> nat option" where
  "digitVal c =
     (let n = (of_char c :: nat) in
      if 48 \<le> n \<and> n \<le> 57 then Some (n - 48)
      else if 97 \<le> n \<and> n \<le> 122 then Some (n - 87)
      else if 65 \<le> n \<and> n \<le> 90 then Some (n - 55)
      else None)"

definition isDigitIn :: "nat \<Rightarrow> char \<Rightarrow> bool" where
  "isDigitIn radix c = (case digitVal c of None \<Rightarrow> False | Some d \<Rightarrow> d < radix)"

fun digits_value :: "nat \<Rightarrow> nat \<Rightarrow> string \<Rightarrow> nat" where
  "digits_value radix acc [] = acc"
| "digits_value radix acc (c # cs) =
     digits_value radix (acc * radix + (case digitVal c of None \<Rightarrow> 0 | Some d \<Rightarrow> d)) cs"

text \<open>
  \<open>parseInt(s)\<close> with no radix argument: leading white space is skipped, then an optional
  sign, then \<open>0x\<close> selects radix 16, then the longest run of digits is read. \<open>None\<close> is
  \<open>NaN\<close>.
\<close>

definition parseInt :: "string \<Rightarrow> int option" where
  "parseInt s =
     (let s1 = dropWhile isWhite s;
          neg = (case s1 of [] \<Rightarrow> False | c # _ \<Rightarrow> c = CHR ''-'');
          s2 = (case s1 of [] \<Rightarrow> [] | c # r \<Rightarrow> if c = CHR ''-'' \<or> c = CHR ''+'' then r else s1);
          hex = (case s2 of c # x # _ \<Rightarrow> c = CHR ''0'' \<and> (x = CHR ''x'' \<or> x = CHR ''X'') | _ \<Rightarrow> False);
          radix = (if hex then 16 else 10);
          s3 = (if hex then drop 2 s2 else s2);
          ds = takeWhile (isDigitIn radix) s3
      in if ds = [] then None
         else Some ((if neg then - 1 else 1) * int (digits_value radix 0 ds)))"

subsection \<open>The fetch event listener\<close>

datatype route = NotIntercepted | ToHandleAPIRequest | ToHandleAPIGet | ToHandleStaticRequest

definition fetch_listener :: "request \<Rightarrow> route" where
  "fetch_listener req =
     (if req_method req \<noteq> ''GET'' then
        (if startsWith (req_pathname req) ''/api/'' then ToHandleAPIRequest else NotIntercepted)
      else if startsWith (req_pathname req) ''/api/'' then ToHandleAPIGet
      else ToHandleStaticRequest)"

subsection \<open>\<open>handleAPIGet\<close>\<close>

definition cache_match :: "sw_world \<Rightarrow> request \<Rightarrow> response option" where
  "cache_match w req = map_of (api_cache w) (req_url req)"

fun alist_put :: "'k \<Rightarrow> 'v \<Rightarrow> ('k \<times> 'v) list \<Rightarrow> ('k \<times> 'v) list" where
  "alist_put k v [] = [(k, v)]"
| "alist_put k v ((k', v') # kvs) =
     (if k = k' then (k, v) # kvs else (k', v') # alist_put k v kvs)"

definition cache_put :: "request \<Rightarrow> response \<Rightarrow> sw_world \<Rightarrow> sw_world" where
  "cache_put req r w = w\<lparr>api_cache := alist_put (req_url req) r (api_cache w)\<rparr>"

text \<open>
  The test made on the cached response before any fetch: there is a cached response, it
  has a non-empty \<open>sw-cache-date\<close> header, and
  \<open>Date.now() - parseInt(cacheDate) < 5 * 60 * 1000\<close> (false when \<open>parseInt\<close> gives
  \<open>NaN\<close>). The result is the response to return at once, if there is one.
\<close>

definition fresh_cached :: "int \<Rightarrow> response option \<Rightarrow> response option" where
  "fresh_cached now cachedResponse =
     (case cachedResponse of
        None \<Rightarrow> None
      | Some r \<Rightarrow>
          (case map_of (headers r) ''sw-cache-date'' of
             None \<Rightarrow> None
           | Some cacheDate \<Rightarrow>
               if cacheDate = [] then None
               else (case parseInt cacheDate of
                       None \<Rightarrow> None
                     | Some t \<Rightarrow> if now - t < 5 * 60 * 1000 then Some r else None)))"

definition handleAPIGet :: "network \<Rightarrow> int \<Rightarrow> request \<Rightarrow> sw_world \<Rightarrow> response \<times> sw_world" where
  "handleAPIGet net now req w =
     (let pathname = req_pathname req;
          isCacheable = some CACHEABLE_API_ENDPOINTS (\<lambda>endpoint. startsWith pathname endpoint)
      in if \<not> isCacheable then
           (case do_fetch net req w of
              (Some r, w1) \<Rightarrow> (r, w1)
            | (None, w1) \<Rightarrow> (network_unavailable_response, w1))
         else
           (case fresh_cached now (cache_match w req) of
              Some cachedResponse \<Rightarrow> (cachedResponse, w)
            | None \<Rightarrow>
                (case do_fetch net req w of
                   (Some networkResponse, w1) \<Rightarrow>
                     (if resp_ok networkResponse then
                        (networkResponse,
                         cache_put req
                           (networkResponse\<lparr>headers :=
                              alist_put ''sw-cache-date'' (int_toString now)
                                (headers networkResponse)\<rparr>)
                           w1)
                      else (networkResponse, w1))
                 | (None, w1) \<Rightarrow>
                     (case cache_match w1 req of
                        Some r \<Rightarrow> (r, w1)
                      | None \<Rightarrow> (offline_response, w1)))))"

subsection \<open>\<open>storeOfflineTransaction\<close> and \<open>handleAPIRequest\<close>\<close>

text \<open>
  \<open>storeOfflineTransaction\<close> catches every error: when the database does not open, or
  \<open>store.add\<close> finds the key taken, nothing is stored and nothing is reported. \<open>rnd\<close> is
  \<open>Math.random().toString(36).substr(2, 9)\<close>.
\<close>

definition storeOfflineTransaction ::
  "int \<Rightarrow> string \<Rightarrow> string \<Rightarrow> string \<Rightarrow> json \<Rightarrow> int \<Rightarrow> sw_world \<Rightarrow> sw_world" where
  "storeOfflineTransaction now rnd endpoint method b timestamp w =
     (let new_id = ''sw_'' @ int_toString now @ ''_'' @ rnd in
      if \<not> sw_db_opens w then w
      else if new_id \<in> set (map sq_id (offlineQueue w)) then w
      else w\<lparr>offlineQueue := offlineQueue w @
             [\<lparr>sq_id = new_id, sq_endpoint = endpoint, sq_method = method,
               sq_body = b, sq_timestamp = timestamp\<rparr>]\<rparr>)"

definition handleAPIRequest ::
  "network \<Rightarrow> int \<Rightarrow> string \<Rightarrow> request \<Rightarrow> sw_world \<Rightarrow> (sw_error + response) \<times> sw_world" where
  "handleAPIRequest net now rnd req w =
     (let pathname = req_pathname req;
          isNonCacheable = some NON_CACHEABLE_ENDPOINTS (\<lambda>endpoint. startsWith pathname endpoint)
      in case do_fetch net req w of
           (Some r, w1) \<Rightarrow> (Inr r, w1)
         | (None, w1) \<Rightarrow>
             (if startsWith pathname ''/api/transfer/'' \<and> \<not> isNonCacheable then
                (case req_body req of
                   None \<Rightarrow> (Inl JsonSyntaxError, w1)
                 | Some b \<Rightarrow>
                     (Inr queued_response,
                      storeOfflineTransaction now rnd pathname (req_method req) b now w1))
              else (Inr network_unavailable_response, w1)))"

section \<open>The local durable queue (\<open>offline-storage.ts\<close>)\<close>

datatype transaction_type = bank_transfer | wallet_transfer | airtime | data

datatype queue_status = queued | processing | failed

record OfflineTransaction =
  ot_id :: string
  ot_type :: transaction_type
  ot_amount :: string
  ot_description :: string
  ot_recipientDetails :: json
  ot_metadata :: json
  ot_timestamp :: int
  ot_status :: queue_status

text \<open>
  The \<open>OfflineStorage\<close> object together with the database behind it. \<open>db\<close> is whether
  the handle \<open>this.db\<close> is non-null; \<open>idb_opens\<close> is whether \<open>indexedDB.open\<close> succeeds
  (it does not, for instance, under private-browsing restrictions). The object store
  \<open>offlineTransactions\<close> has key path \<open>id\<close>: it holds each transaction with its
  \<open>userId\<close> (a pair here), in the order of the keys.
\<close>

record OfflineStorage =
  isInitialized :: bool
  db :: bool
  idb_opens :: bool
  offlineTransactions :: "(string \<times> OfflineTransaction) list"

datatype storage_error =
    FailedToOpenIndexedDB
  | DatabaseNotInitialized
  | FailedToAddOfflineTransaction

definition stored_ids :: "OfflineStorage \<Rightarrow> string list" where
  "stored_ids st = map (\<lambda>r. ot_id (snd r)) (offlineTransactions st)"

definition initialize :: "OfflineStorage \<Rightarrow> storage_error + OfflineStorage" where
  "initialize st =
     (if isInitialized st then Inr st
      else if idb_opens st then Inr (st\<lparr>db := True, isInitialized := True\<rparr>)
      else Inl FailedToOpenIndexedDB)"

definition ensureInitialized :: "OfflineStorage \<Rightarrow> storage_error + OfflineStorage" where
  "ensureInitialized st = (if \<not> isInitialized st then initialize st else Inr st)"

text \<open>
  \<open>store.add\<close> fails when the key is already present (the request's \<open>onerror\<close> fires and
  the transaction is aborted); the promise is then rejected.
\<close>

definition addOfflineTransaction ::
  "string \<Rightarrow> OfflineTransaction \<Rightarrow> OfflineStorage \<Rightarrow> (storage_error + unit) \<times> OfflineStorage" where
  "addOfflineTransaction userId t st =
     (case ensureInitialized st of
        Inl e \<Rightarrow> (Inl e, st)
      | Inr st1 \<Rightarrow>
          if \<not> db st1 then (Inl DatabaseNotInitialized, st1)
          else if ot_id t \<in> set (stored_ids st1) then (Inl FailedToAddOfflineTransaction, st1)
          else (Inr (),
                st1\<lparr>offlineTransactions :=
                      insort_key (\<lambda>r. ot_id (snd r)) (userId, t) (offlineTransactions st1)\<rparr>))"

text \<open>
  \<open>index.getAll(userId)\<close> gives the user's records in key order; the user id is dropped
  from each; \<open>sort((a, b) => b.timestamp - a.timestamp)\<close> is a stable sort by descending
  timestamp, which is \<open>sort_key\<close> on the negated timestamp.
\<close>

definition getOfflineTransactions ::
  "string \<Rightarrow> OfflineStorage \<Rightarrow> (storage_error + OfflineTransaction list) \<times> OfflineStorage" where
  "getOfflineTransactions userId st =
     (case ensureInitialized st of
        Inl e \<Rightarrow> (Inl e, st)
      | Inr st1 \<Rightarrow>
          if \<not> db st1 then (Inl DatabaseNotInitialized, st1)
          else (Inr (sort_key (\<lambda>t. - ot_timestamp t)
                       (map snd (filter (\<lambda>r. fst r = userId) (offlineTransactions st1)))),
                st1))"


definition addToOfflineQueue ::
  "string \<Rightarrow> OfflineTransaction \<Rightarrow> OfflineStorage \<Rightarrow> (storage_error + unit) \<times> OfflineStorage" where
  "addToOfflineQueue userId t st = addOfflineTransaction userId t st"

definition getOfflineQueue ::
  "string \<Rightarrow> OfflineStorage \<Rightarrow> (storage_error + OfflineTransaction list) \<times> OfflineStorage" where
  "getOfflineQueue userId st = getOfflineTransactions userId st"


text \<open>The store can be used: it is open already, or it opens when asked.\<close>

definition store_usable :: "OfflineStorage \<Rightarrow> bool" where
  "store_usable st = (if isInitialized st then db st else idb_opens st)"

section \<open>The queue hook (\<open>use-offline-queue.tsx\<close>)\<close>

text \<open>The argument of \<open>addTransactionToQueue\<close>: a transaction without id, timestamp, status.\<close>

record new_transaction =
  nt_type :: transaction_type
  nt_amount :: string
  nt_description :: string
  nt_recipientDetails :: json
  nt_metadata :: json

text \<open>
  The body of a replayed request is the object
  \<open>{...recipientDetails, amount, description, ...metadata}\<close>, kept as its four parts.
\<close>

record submit_body =
  sb_recipientDetails :: json
  sb_amount :: string
  sb_description :: string
  sb_metadata :: json

text \<open>
  The outcome of one \<open>fetch\<close> of the hook: \<open>response.ok\<close>, a response that is not ok, or
  an exception. The server is a function of the number of requests made so far, the
  endpoint and the body; every request is appended to \<open>requests\<close>.
\<close>

datatype fetch_outcome = HttpOk | HttpNotOk | NetworkError

type_synonym api = "nat \<Rightarrow> string \<Rightarrow> submit_body \<Rightarrow> fetch_outcome"

text \<open>
  The state of the hook (\<open>user\<close> is \<open>user.id\<close> when a user is signed in), the storage
  object it uses, and what it has emitted: requests, toasts (by title) and
  \<open>console.error\<close> lines.
\<close>

record hook_state =
  user :: "string option"
  isOnline :: bool
  isProcessing :: bool
  queuedTransactions :: "OfflineTransaction list"
  storage :: OfflineStorage
  requests :: "(string \<times> submit_body) list"
  toasts :: "string list"
  console :: "string list"

definition loadQueuedTransactions :: "hook_state \<Rightarrow> hook_state" where
  "loadQueuedTransactions s =
     (case user s of
        None \<Rightarrow> s
      | Some uid \<Rightarrow>
          (case getOfflineQueue uid (storage s) of
             (Inr queue, st') \<Rightarrow> s\<lparr>storage := st', queuedTransactions := queue\<rparr>
           | (Inl e, st') \<Rightarrow>
               s\<lparr>storage := st', console := console s @ [''Failed to load offline queue:'']\<rparr>))"

text \<open>
  \<open>now_id\<close> and \<open>now_ts\<close> are the two readings of \<open>Date.now()\<close>, \<open>rnd\<close> is
  \<open>Math.random().toString(36).substr(2, 9)\<close>.
\<close>

definition new_id :: "int \<Rightarrow> string \<Rightarrow> string" where
  "new_id now_id rnd = ''offline_'' @ int_toString now_id @ ''_'' @ rnd"

definition queuedTransaction :: "new_transaction \<Rightarrow> int \<Rightarrow> int \<Rightarrow> string \<Rightarrow> OfflineTransaction" where
  "queuedTransaction n now_id now_ts rnd =
     \<lparr>ot_id = new_id now_id rnd, ot_type = nt_type n, ot_amount = nt_amount n,
      ot_description = nt_description n, ot_recipientDetails = nt_recipientDetails n,
      ot_metadata = nt_metadata n, ot_timestamp = now_ts, ot_status = queued\<rparr>"

definition addTransactionToQueue ::
  "int \<Rightarrow> int \<Rightarrow> string \<Rightarrow> new_transaction \<Rightarrow> hook_state \<Rightarrow> hook_state" where
  "addTransactionToQueue now_id now_ts rnd n s =
     (case user s of
        None \<Rightarrow> s
      | Some uid \<Rightarrow>
          (let q = queuedTransaction n now_id now_ts rnd in
           case addToOfflineQueue uid q (storage s) of
             (Inr _, st') \<Rightarrow>
               s\<lparr>storage := st', queuedTransactions := queuedTransactions s @ [q],
                 toasts := toasts s @ [''Transaction Queued'']\<rparr>
           | (Inl e, st') \<Rightarrow>
               s\<lparr>storage := st', console := console s @ [''Failed to queue transaction:''],
                 toasts := toasts s @ [''Queue Failed'']\<rparr>))"












section \<open>The webhook reconciler (server)\<close>

text \<open>
  The two tables the webhook handler uses, with the columns it reads or writes. A
  \<open>decimal(12, 2)\<close> column is held as the integer number of hundredths: the handler's
  \<open>parseFloat\<close>, addition and \<open>toString\<close> are exact at that scale once the value is stored
  back in the column, and a value of \<open>10^10\<close> or more does not fit it. Nullable columns
  are options.
\<close>

datatype transaction_status = Pending | Success | Failed | Cancelled

record transaction_row =
  tr_id :: string
  tr_userId :: string
  tr_amount :: int
  tr_status :: "transaction_status option"
  tr_squadReference :: "string option"
  tr_createdAt :: int

record wallet_row =
  wl_userId :: string
  wl_balance :: "int option"

record database =
  wallets :: "wallet_row list"
  transactions :: "transaction_row list"

datatype db_error = NumericFieldOverflow

text \<open>
  \<open>where userId = ... order by createdAt desc limit ...\<close>; rows created at the same time
  are taken in the order of the table.
\<close>

definition getTransactions :: "string \<Rightarrow> nat \<Rightarrow> database \<Rightarrow> transaction_row list" where
  "getTransactions userId limit d =
     take limit (sort_key (\<lambda>t. - tr_createdAt t)
                   (filter (\<lambda>t. tr_userId t = userId) (transactions d)))"

definition getWallet :: "string \<Rightarrow> database \<Rightarrow> wallet_row option" where
  "getWallet userId d = find (\<lambda>w. wl_userId w = userId) (wallets d)"

definition updateWalletBalance :: "string \<Rightarrow> int \<Rightarrow> database \<Rightarrow> db_error + database" where
  "updateWalletBalance userId balance d =
     (if \<bar>balance\<bar> \<ge> 10 ^ 12 then Inl NumericFieldOverflow
      else Inr (d\<lparr>wallets :=
                    map (\<lambda>w. if wl_userId w = userId then w\<lparr>wl_balance := Some balance\<rparr> else w)
                      (wallets d)\<rparr>))"

definition updateTransaction :: "string \<Rightarrow> transaction_status \<Rightarrow> database \<Rightarrow> database" where
  "updateTransaction i v d =
     d\<lparr>transactions :=
         map (\<lambda>t. if tr_id t = i then t\<lparr>tr_status := Some v\<rparr> else t) (transactions d)\<rparr>"

text \<open>A property of the request body; reading one from \<open>null\<close> or \<open>undefined\<close> throws.\<close>

definition field :: "json \<Rightarrow> string \<Rightarrow> json" where
  "field j k =
     (case j of
        JObj fs \<Rightarrow> (case map_of fs k of None \<Rightarrow> JUndefined | Some v \<Rightarrow> v)
      | _ \<Rightarrow> JUndefined)"

text \<open>\<open>t.squadReference === transaction_reference\<close>, a nullable string against a JSON value.\<close>

fun strict_eq :: "string option \<Rightarrow> json \<Rightarrow> bool" where
  "strict_eq (Some s) (JStr s') = (s = s')"
| "strict_eq None JNull = True"
| "strict_eq _ _ = False"

definition server_json_headers :: "(string \<times> string) list" where
  "server_json_headers = [(''content-type'', ''application/json; charset=utf-8'')]"

definition webhook_processed :: response where
  "webhook_processed =
     \<lparr>status = 200, headers = server_json_headers,
      body = JsonBody (JObj [(''message'', JStr ''Webhook processed'')])\<rparr>"

definition webhook_failed :: response where
  "webhook_failed =
     \<lparr>status = 500, headers = server_json_headers,
      body = JsonBody (JObj [(''message'', JStr ''Webhook processing failed'')])\<rparr>"

text \<open>
  The handler of \<open>POST /api/webhooks/squad\<close>, given \<open>req.body\<close>. The rows it searches
  are those of \<open>storage.getTransactions("", 1000)\<close>.
\<close>

definition squad_webhook :: "json \<Rightarrow> database \<Rightarrow> response \<times> database" where
  "squad_webhook req_json d =
     (if req_json = JNull \<or> req_json = JUndefined then (webhook_failed, d)
      else
        (let transaction_reference = field req_json ''transaction_reference'';
             transaction_status = field req_json ''transaction_status'';
             rows = getTransactions [] 1000 d
         in case find (\<lambda>t. strict_eq (tr_squadReference t) transaction_reference) rows of
              None \<Rightarrow> (webhook_processed, d)
            | Some t \<Rightarrow>
                if transaction_status = JStr ''success'' then
                  (webhook_processed, updateTransaction (tr_id t) Success d)
                else if transaction_status = JStr ''failed'' then
                  (case getWallet (tr_userId t) d of
                     None \<Rightarrow> (webhook_processed, updateTransaction (tr_id t) Failed d)
                   | Some wallet \<Rightarrow>
                       (case wl_balance wallet of
                          None \<Rightarrow> (webhook_processed, updateTransaction (tr_id t) Failed d)
                        | Some currentBalance \<Rightarrow>
                            (case updateWalletBalance (tr_userId t)
                                    (currentBalance + \<bar>tr_amount t\<bar>) d of
                               Inl e \<Rightarrow> (webhook_failed, d)
                             | Inr d1 \<Rightarrow>
                                 (webhook_processed, updateTransaction (tr_id t) Failed d1))))
                else (webhook_processed, updateTransaction (tr_id t) Pending d)))"

section \<open>Auxiliary notions for the properties of the queue\<close>













text \<open>Ids are unique in the store and in the hook's list.\<close>

definition ids_unique :: "hook_state \<Rightarrow> bool" where
  "ids_unique s =
     (distinct (stored_ids (storage s)) \<and> distinct (map ot_id (queuedTransactions s)))"


section \<open>Example inputs\<close>

definition login_request :: request where
  "login_request = \<lparr>req_method = ''POST'', req_url = ''https://finxchange.app/api/auth/login'',
     req_pathname = ''/api/auth/login'', req_body = Some (JObj [(''phone'', JStr ''08030000000'')])\<rparr>"

definition transfer_request :: request where
  "transfer_request = \<lparr>req_method = ''POST'', req_url = ''https://finxchange.app/api/transfer/bank'',
     req_pathname = ''/api/transfer/bank'', req_body = Some (JObj [(''amount'', JStr ''1000'')])\<rparr>"

definition wallet_request :: request where
  "wallet_request = \<lparr>req_method = ''GET'', req_url = ''https://finxchange.app/api/wallet'',
     req_pathname = ''/api/wallet'', req_body = None\<rparr>"

definition cached_wallet :: response where
  "cached_wallet = \<lparr>status = 200,
     headers = [(''content-type'', ''application/json''), (''sw-cache-date'', ''1700000000000'')],
     body = JsonBody (JObj [(''balance'', JStr ''5000.00'')])\<rparr>"

definition empty_world :: sw_world where
  "empty_world = \<lparr>api_cache = [], sw_db_opens = True, offlineQueue = [], fetch_log = []\<rparr>"

definition warm_world :: sw_world where
  "warm_world = \<lparr>api_cache = [(''https://finxchange.app/api/wallet'', cached_wallet)],
     sw_db_opens = True, offlineQueue = [], fetch_log = []\<rparr>"

definition unreachable :: network where
  "unreachable = (\<lambda>_. None)"

definition tx_a :: OfflineTransaction where
  "tx_a = \<lparr>ot_id = ''offline_1000_aaaaaaaaa'', ot_type = bank_transfer, ot_amount = ''1500.00'',
     ot_description = ''Rent'',
     ot_recipientDetails = JObj [(''bankCode'', JStr ''058''), (''accountNumber'', JStr ''0123456789'')],
     ot_metadata = JUndefined, ot_timestamp = 1000, ot_status = queued\<rparr>"

definition tx_b :: OfflineTransaction where
  "tx_b = \<lparr>ot_id = ''offline_2000_bbbbbbbbb'', ot_type = airtime, ot_amount = ''200.00'',
     ot_description = ''Airtime'',
     ot_recipientDetails = JObj [(''phone'', JStr ''08030000000'')],
     ot_metadata = JUndefined, ot_timestamp = 2000, ot_status = queued\<rparr>"

definition fresh_storage :: OfflineStorage where
  "fresh_storage = \<lparr>isInitialized = False, db = False, idb_opens = True, offlineTransactions = []\<rparr>"

definition blocked_storage :: OfflineStorage where
  "blocked_storage = \<lparr>isInitialized = False, db = False, idb_opens = False, offlineTransactions = []\<rparr>"

definition storage_ab :: OfflineStorage where
  "storage_ab = \<lparr>isInitialized = True, db = True, idb_opens = True,
     offlineTransactions = [(''user-1'', tx_a), (''user-1'', tx_b)]\<rparr>"

definition hook_blocked :: hook_state where
  "hook_blocked = \<lparr>user = Some ''user-1'', isOnline = True, isProcessing = False,
     queuedTransactions = [], storage = blocked_storage, requests = [], toasts = [], console = []\<rparr>"

definition hook_fresh :: hook_state where
  "hook_fresh = \<lparr>user = Some ''user-1'', isOnline = False, isProcessing = False,
     queuedTransactions = [], storage = fresh_storage, requests = [], toasts = [], console = []\<rparr>"

definition new_rent :: new_transaction where
  "new_rent = \<lparr>nt_type = bank_transfer, nt_amount = ''1500.00'', nt_description = ''Rent'',
     nt_recipientDetails = JObj [(''bankCode'', JStr ''058''), (''accountNumber'', JStr ''0123456789'')],
     nt_metadata = JUndefined\<rparr>"

definition bank_row :: transaction_row where
  "bank_row = \<lparr>tr_id = ''txn-1'', tr_userId = ''user-1'', tr_amount = 100000,
     tr_status = Some Pending, tr_squadReference = Some ''SQD_REF_1'',
     tr_createdAt = 1700000000000\<rparr>"

definition example_db :: database where
  "example_db = \<lparr>wallets = [\<lparr>wl_userId = ''user-1'', wl_balance = Some 400000\<rparr>],
     transactions = [bank_row]\<rparr>"

definition failed_callback :: json where
  "failed_callback = JObj [(''transaction_reference'', JStr ''SQD_REF_1''),
     (''transaction_status'', JStr ''failed'')]"

definition unknown_callback :: json where
  "unknown_callback = JObj [(''transaction_reference'', JStr ''SQD_REF_9''),
     (''transaction_status'', JStr ''failed'')]"

definition ownerless_db :: database where
  "ownerless_db = \<lparr>wallets = [\<lparr>wl_userId = [], wl_balance = Some 400000\<rparr>],
     transactions = [bank_row\<lparr>tr_userId := []\<rparr>]\<rparr>"

definition new_airtime :: new_transaction where
  "new_airtime = \<lparr>nt_type = airtime, nt_amount = ''200.00'', nt_description = ''Airtime'',
     nt_recipientDetails = JObj [(''phone'', JStr ''08030000000'')], nt_metadata = JUndefined\<rparr>"





definition hook_signed_out :: hook_state where
  "hook_signed_out = \<lparr>user = None, isOnline = False, isProcessing = False,
     queuedTransactions = [], storage = fresh_storage, requests = [], toasts = [], console = []\<rparr>"

section \<open>The service worker: properties\<close>

lemma startsWith_append: "startsWith s (p @ q) \<Longrightarrow> startsWith s p"
  by (induction s p rule: startsWith.induct) auto

lemma non_cacheable_is_api:
  "some NON_CACHEABLE_ENDPOINTS (\<lambda>e. startsWith s e) \<Longrightarrow> startsWith s ''/api/''"
  unfolding some_def NON_CACHEABLE_ENDPOINTS_def
  using startsWith_append [of s "''/api/''"]
  by auto

lemma cacheable_is_api:
  "some CACHEABLE_API_ENDPOINTS (\<lambda>e. startsWith s e) \<Longrightarrow> startsWith s ''/api/''"
  unfolding some_def CACHEABLE_API_ENDPOINTS_def
  using startsWith_append [of s "''/api/''"]
  by auto

lemma handleAPIRequest_unreachable:
  assumes "net req = None"
  shows "handleAPIRequest net now rnd req w =
           (Inr network_unavailable_response, w\<lparr>fetch_log := fetch_log w @ [req]\<rparr>)"
  using assms
  by (auto simp: handleAPIRequest_def do_fetch_def Let_def some_def NON_CACHEABLE_ENDPOINTS_def)

text \<open>
  Claim C2 (a write to a transfer endpoint made while the network is unreachable is
  queued and answered with 202). The worker does not do this: \<open>/api/transfer/\<close> is itself
  an entry of \<open>NON_CACHEABLE_ENDPOINTS\<close>, so the branch that queues is never taken. For a
  \<open>POST\<close> to \<open>/api/transfer/bank\<close> with a JSON body and no network, the worker answers
  503 and stores nothing: the only change is the logged fetch attempt.
\<close>

theorem C2_transfer_write_not_queued:
  "handleAPIRequest unreachable 1700000000000 ''k3j9x0q2a'' transfer_request empty_world =
     (Inr network_unavailable_response, empty_world\<lparr>fetch_log := [transfer_request]\<rparr>)
   \<and> status network_unavailable_response = 503
   \<and> fetch_listener transfer_request = ToHandleAPIRequest"
  by (simp add: handleAPIRequest_unreachable unreachable_def empty_world_def
      network_unavailable_response_def fetch_listener_def transfer_request_def)

text \<open>
  Claim C4: a request that is not a \<open>GET\<close>, to a path that starts with an entry of
  \<open>NON_CACHEABLE_ENDPOINTS\<close>, made while the network is unreachable, is handled by
  \<open>handleAPIRequest\<close>, gets the 503 response and leaves the worker's queue as it was.
\<close>

theorem C4_non_cacheable_never_queued:
  assumes "req_method req \<noteq> ''GET''"
      and "some NON_CACHEABLE_ENDPOINTS (\<lambda>endpoint. startsWith (req_pathname req) endpoint)"
      and "net req = None"
  shows "fetch_listener req = ToHandleAPIRequest
       \<and> fst (handleAPIRequest net now rnd req w) = Inr network_unavailable_response
       \<and> status network_unavailable_response = 503
       \<and> offlineQueue (snd (handleAPIRequest net now rnd req w)) = offlineQueue w"
  using assms non_cacheable_is_api [OF assms(2)]
  by (simp add: fetch_listener_def handleAPIRequest_unreachable network_unavailable_response_def)

theorem C4_non_cacheable_never_queued_witness:
  "req_method login_request \<noteq> ''GET''
   \<and> some NON_CACHEABLE_ENDPOINTS (\<lambda>endpoint. startsWith (req_pathname login_request) endpoint)
   \<and> unreachable login_request = None
   \<and> fetch_listener login_request = ToHandleAPIRequest
   \<and> fst (handleAPIRequest unreachable 1700000000000 ''k3j9x0q2a'' login_request empty_world)
       = Inr network_unavailable_response
   \<and> offlineQueue (snd (handleAPIRequest unreachable 1700000000000 ''k3j9x0q2a'' login_request
       empty_world)) = []"
proof -
  have m: "req_method login_request \<noteq> ''GET''"
    by (simp add: login_request_def)
  have p: "some NON_CACHEABLE_ENDPOINTS (\<lambda>endpoint. startsWith (req_pathname login_request) endpoint)"
    by (simp add: login_request_def some_def NON_CACHEABLE_ENDPOINTS_def)
  have n: "unreachable login_request = None"
    by (simp add: unreachable_def)
  show ?thesis
    using m p n
      C4_non_cacheable_never_queued
        [of login_request unreachable 1700000000000 "''k3j9x0q2a''" empty_world]
    by (simp add: empty_world_def)
qed

lemma parseInt_Nil: "parseInt [] = None"
  by (simp add: parseInt_def)

text \<open>
  Claim C5: for a \<open>GET\<close> to a cacheable endpoint with a cached response whose
  \<open>sw-cache-date\<close> is less than five minutes before now, \<open>handleAPIGet\<close> returns the
  cached response and the worker's state, fetch log included, is unchanged: no fetch
  is made.
\<close>

theorem C5_fresh_cache_served_without_fetch:
  assumes "req_method req = ''GET''"
      and "some CACHEABLE_API_ENDPOINTS (\<lambda>endpoint. startsWith (req_pathname req) endpoint)"
      and "cache_match w req = Some r"
      and "map_of (headers r) ''sw-cache-date'' = Some cacheDate"
      and "parseInt cacheDate = Some t"
      and "now - t < 5 * 60 * 1000"
  shows "fetch_listener req = ToHandleAPIGet
       \<and> fst (handleAPIGet net now req w) = r
       \<and> fetch_log (snd (handleAPIGet net now req w)) = fetch_log w
       \<and> snd (handleAPIGet net now req w) = w"
proof -
  have "cacheDate \<noteq> []" using assms(5) parseInt_Nil by auto
  then have "fresh_cached now (cache_match w req) = Some r"
    using assms by (simp add: fresh_cached_def)
  then show ?thesis
    using assms cacheable_is_api [OF assms(2)]
    by (simp add: handleAPIGet_def fetch_listener_def)
qed

lemma parseInt_example: "parseInt ''1700000000000'' = Some 1700000000000"
  by (simp add: parseInt_def isWhite_def isDigitIn_def digitVal_def)

theorem C5_fresh_cache_served_without_fetch_witness:
  "req_method wallet_request = ''GET''
   \<and> some CACHEABLE_API_ENDPOINTS (\<lambda>endpoint. startsWith (req_pathname wallet_request) endpoint)
   \<and> cache_match warm_world wallet_request = Some cached_wallet
   \<and> map_of (headers cached_wallet) ''sw-cache-date'' = Some ''1700000000000''
   \<and> parseInt ''1700000000000'' = Some 1700000000000
   \<and> (1700000060000::int) - 1700000000000 < 5 * 60 * 1000
   \<and> fetch_listener wallet_request = ToHandleAPIGet
   \<and> fst (handleAPIGet unreachable 1700000060000 wallet_request warm_world) = cached_wallet
   \<and> fetch_log (snd (handleAPIGet unreachable 1700000060000 wallet_request warm_world)) = []"
proof -
  have a: "req_method wallet_request = ''GET''"
    by (simp add: wallet_request_def)
  have b: "some CACHEABLE_API_ENDPOINTS (\<lambda>endpoint. startsWith (req_pathname wallet_request) endpoint)"
    by (simp add: wallet_request_def some_def CACHEABLE_API_ENDPOINTS_def)
  have c: "cache_match warm_world wallet_request = Some cached_wallet"
    by (simp add: cache_match_def warm_world_def wallet_request_def)
  have d: "map_of (headers cached_wallet) ''sw-cache-date'' = Some ''1700000000000''"
    by (simp add: cached_wallet_def)
  have e: "(1700000060000::int) - 1700000000000 < 5 * 60 * 1000"
    by simp
  show ?thesis
    using a b c d e parseInt_example
      C5_fresh_cache_served_without_fetch
        [of wallet_request warm_world cached_wallet "''1700000000000''" 1700000000000
            1700000060000 unreachable]
    by (simp add: warm_world_def)
qed

section \<open>The local durable queue: properties\<close>

lemma ensureInitialized_Inr:
  assumes "ensureInitialized st = Inr st1"
  shows "isInitialized st1" and "offlineTransactions st1 = offlineTransactions st"
    and "idb_opens st1 = idb_opens st" and "db st1 = store_usable st"
  using assms
  by (auto simp: ensureInitialized_def initialize_def store_usable_def split: if_splits)

lemma ensureInitialized_Inl:
  assumes "ensureInitialized st = Inl e"
  shows "\<not> store_usable st" and "e = FailedToOpenIndexedDB"
  using assms
  by (auto simp: ensureInitialized_def initialize_def store_usable_def split: if_splits)

lemma ensureInitialized_usable:
  assumes "store_usable st"
  shows "ensureInitialized st = Inr (st\<lparr>db := True, isInitialized := True\<rparr>)"
  using assms
  by (auto simp: ensureInitialized_def initialize_def store_usable_def split: if_splits)

lemma stored_ids_ensure:
  "ensureInitialized st = Inr st1 \<Longrightarrow> stored_ids st1 = stored_ids st"
  by (simp add: stored_ids_def ensureInitialized_Inr(2))

text \<open>
  Claim C10: adding a transaction whose id is already a key of the object store fails
  (the promise is rejected) and the object store keeps its contents; when the store
  can be used, the error is the one of \<open>store.add\<close>.
\<close>

theorem C10_existing_id_rejected:
  assumes "ot_id t \<in> set (stored_ids st)"
  shows "isl (fst (addOfflineTransaction userId t st))
       \<and> offlineTransactions (snd (addOfflineTransaction userId t st)) = offlineTransactions st
       \<and> (store_usable st \<longrightarrow>
            fst (addOfflineTransaction userId t st) = Inl FailedToAddOfflineTransaction)"
proof (cases "ensureInitialized st")
  case (Inl e)
  then show ?thesis
    using ensureInitialized_Inl(1) [OF Inl] by (simp add: addOfflineTransaction_def)
next
  case (Inr st1)
  then show ?thesis
    using assms stored_ids_ensure [OF Inr] ensureInitialized_Inr [OF Inr]
    by (simp add: addOfflineTransaction_def)
qed

theorem C10_existing_id_rejected_witness:
  "ot_id (tx_a\<lparr>ot_amount := ''99.00''\<rparr>) \<in> set (stored_ids storage_ab)
   \<and> store_usable storage_ab
   \<and> addOfflineTransaction ''user-1'' (tx_a\<lparr>ot_amount := ''99.00''\<rparr>) storage_ab
       = (Inl FailedToAddOfflineTransaction, storage_ab)"
proof -
  have h: "ot_id (tx_a\<lparr>ot_amount := ''99.00''\<rparr>) \<in> set (stored_ids storage_ab)"
    by (simp add: stored_ids_def storage_ab_def tx_a_def)
  have u: "store_usable storage_ab"
    by (simp add: store_usable_def storage_ab_def)
  have "snd (addOfflineTransaction ''user-1'' (tx_a\<lparr>ot_amount := ''99.00''\<rparr>) storage_ab) = storage_ab"
    using h by (simp add: addOfflineTransaction_def ensureInitialized_def storage_ab_def)
  then show ?thesis
    using h u C10_existing_id_rejected [OF h, of "''user-1''"]
    by (simp add: prod_eq_iff)
qed


lemma getOfflineTransactions_usable:
  assumes "store_usable st"
  shows "getOfflineTransactions userId st =
           (Inr (sort_key (\<lambda>t. - ot_timestamp t)
                   (map snd (filter (\<lambda>r. fst r = userId) (offlineTransactions st)))),
            st\<lparr>db := True, isInitialized := True\<rparr>)"
  by (simp add: getOfflineTransactions_def ensureInitialized_usable [OF assms])

lemma getOfflineTransactions_unusable:
  assumes "\<not> store_usable st"
  shows "\<exists>e. getOfflineTransactions userId st = (Inl e, st)"
  using assms
  by (auto simp: getOfflineTransactions_def ensureInitialized_def initialize_def store_usable_def
      split: if_splits)

lemma sorted_newest_first:
  "sorted_wrt (\<lambda>a b. ot_timestamp b \<le> ot_timestamp a) (sort_key (\<lambda>t. - ot_timestamp t) xs)"
proof -
  have "sorted (map (\<lambda>t. - ot_timestamp t) (sort_key (\<lambda>t. - ot_timestamp t) xs))"
    by (rule sorted_sort_key)
  then show ?thesis
    by (simp add: sorted_map)
qed

text \<open>
  Claim C6, as amended. When the store can be used, \<open>getOfflineTransactions\<close> returns
  exactly the user's records (as a multiset), newest first. When it cannot be used,
  \<open>getOfflineTransactions\<close> does not return an empty list: it is rejected with an error
  and changes nothing. Its caller \<open>loadQueuedTransactions\<close> catches the error, logs it and
  leaves the hook's queue as it was.
\<close>

theorem C6_list_newest_first_or_rejects:
  "(store_usable st \<longrightarrow>
      (\<exists>xs st'. getOfflineTransactions userId st = (Inr xs, st')
         \<and> mset xs = mset (map snd (filter (\<lambda>r. fst r = userId) (offlineTransactions st)))
         \<and> sorted_wrt (\<lambda>a b. ot_timestamp b \<le> ot_timestamp a) xs))
   \<and> (\<not> store_usable st \<longrightarrow>
        (\<exists>e. getOfflineTransactions userId st = (Inl e, st))
        \<and> (user s = Some userId \<and> storage s = st \<longrightarrow>
             loadQueuedTransactions s = s\<lparr>console := console s @ [''Failed to load offline queue:'']\<rparr>))"
proof (cases "store_usable st")
  case True
  then show ?thesis
    by (simp add: getOfflineTransactions_usable sorted_newest_first)
next
  case False
  then obtain e where e: "getOfflineTransactions userId st = (Inl e, st)"
    using getOfflineTransactions_unusable by blast
  then show ?thesis
    using False by (auto simp: loadQueuedTransactions_def getOfflineQueue_def)
qed

text \<open>
  Claim C6 as stated fails: for a store that does not open, the list operation is
  rejected with \<open>Failed to open IndexedDB\<close>; it does not return the empty list.
\<close>

theorem C6_list_rejects_counterexample:
  "getOfflineTransactions ''user-1'' blocked_storage = (Inl FailedToOpenIndexedDB, blocked_storage)
   \<and> fst (getOfflineTransactions ''user-1'' blocked_storage) \<noteq> Inr []"
  by (simp add: getOfflineTransactions_def ensureInitialized_def initialize_def blocked_storage_def)

theorem C6_list_newest_first_or_rejects_witness:
  "store_usable storage_ab
   \<and> getOfflineTransactions ''user-1'' storage_ab = (Inr [tx_b, tx_a], storage_ab)
   \<and> sorted_wrt (\<lambda>a b. ot_timestamp b \<le> ot_timestamp a) [tx_b, tx_a]
   \<and> \<not> store_usable blocked_storage
   \<and> user hook_blocked = Some ''user-1'' \<and> storage hook_blocked = blocked_storage
   \<and> queuedTransactions (loadQueuedTransactions hook_blocked) = []
   \<and> console (loadQueuedTransactions hook_blocked) = [''Failed to load offline queue:'']"
proof -
  have u: "store_usable storage_ab"
    by (simp add: store_usable_def storage_ab_def)
  have g: "getOfflineTransactions ''user-1'' storage_ab = (Inr [tx_b, tx_a], storage_ab)"
    by (simp add: getOfflineTransactions_def ensureInitialized_def storage_ab_def tx_a_def tx_b_def)
  have b: "\<not> store_usable blocked_storage"
    by (simp add: store_usable_def blocked_storage_def)
  have h: "user hook_blocked = Some ''user-1'' \<and> storage hook_blocked = blocked_storage"
    by (simp add: hook_blocked_def)
  have "sorted_wrt (\<lambda>a b. ot_timestamp b \<le> ot_timestamp a) [tx_b, tx_a]"
    using u g C6_list_newest_first_or_rejects [of storage_ab "''user-1''" hook_blocked]
    by simp
  moreover have "loadQueuedTransactions hook_blocked =
      hook_blocked\<lparr>console := console hook_blocked @ [''Failed to load offline queue:'']\<rparr>"
    using b h C6_list_newest_first_or_rejects [of blocked_storage "''user-1''" hook_blocked]
    by simp
  ultimately show ?thesis
    using u g b h by (simp add: hook_blocked_def)
qed

lemma addOfflineTransaction_ok:
  assumes "fst (addOfflineTransaction userId t st) = Inr ()"
  shows "store_usable st" and "ot_id t \<notin> set (stored_ids st)"
    and "snd (addOfflineTransaction userId t st) =
           st\<lparr>db := True, isInitialized := True,
              offlineTransactions :=
                insort_key (\<lambda>r. ot_id (snd r)) (userId, t) (offlineTransactions st)\<rparr>"
proof -
  obtain st1 where st1: "ensureInitialized st = Inr st1"
    using assms by (cases "ensureInitialized st") (auto simp: addOfflineTransaction_def)
  have d: "db st1" and n: "ot_id t \<notin> set (stored_ids st1)"
    using assms st1 by (auto simp: addOfflineTransaction_def split: if_splits)
  show u: "store_usable st"
    using d ensureInitialized_Inr(4) [OF st1] by simp
  show "ot_id t \<notin> set (stored_ids st)"
    using n stored_ids_ensure [OF st1] by simp
  have "st1 = st\<lparr>db := True, isInitialized := True\<rparr>"
    using st1 ensureInitialized_usable [OF u] by simp
  then show "snd (addOfflineTransaction userId t st) =
           st\<lparr>db := True, isInitialized := True,
              offlineTransactions :=
                insort_key (\<lambda>r. ot_id (snd r)) (userId, t) (offlineTransactions st)\<rparr>"
    using st1 d n by (simp add: addOfflineTransaction_def)
qed

text \<open>The store accepts a record exactly when it can be used and the id is not taken.\<close>

lemma addOfflineTransaction_succeeds_iff:
  "fst (addOfflineTransaction userId t st) = Inr ()
     \<longleftrightarrow> store_usable st \<and> ot_id t \<notin> set (stored_ids st)"
proof
  assume "fst (addOfflineTransaction userId t st) = Inr ()"
  then show "store_usable st \<and> ot_id t \<notin> set (stored_ids st)"
    using addOfflineTransaction_ok(1,2) by blast
next
  assume "store_usable st \<and> ot_id t \<notin> set (stored_ids st)"
  then show "fst (addOfflineTransaction userId t st) = Inr ()"
    by (simp add: addOfflineTransaction_def ensureInitialized_usable stored_ids_def)
qed

lemma addOfflineTransaction_failed:
  assumes "fst (addOfflineTransaction userId t st) \<noteq> Inr ()"
  shows "offlineTransactions (snd (addOfflineTransaction userId t st)) = offlineTransactions st"
proof (cases "ensureInitialized st")
  case (Inl e)
  then show ?thesis by (simp add: addOfflineTransaction_def)
next
  case (Inr st1)
  then show ?thesis
    using assms ensureInitialized_Inr(2) [OF Inr]
    by (auto simp: addOfflineTransaction_def split: if_splits)
qed

lemma addOfflineTransaction_refused:
  assumes "\<not> (store_usable st \<and> ot_id t \<notin> set (stored_ids st))"
  shows "\<exists>e. fst (addOfflineTransaction userId t st) = Inl e"
  using assms addOfflineTransaction_succeeds_iff [of userId t st]
  by (cases "fst (addOfflineTransaction userId t st)") auto

lemma enqueue_signed_out:
  "user s = None \<Longrightarrow> addTransactionToQueue now_id now_ts rnd n s = s"
  by (simp add: addTransactionToQueue_def)

lemma enqueue_stored:
  assumes u: "user s = Some userId"
      and free: "store_usable (storage s)
           \<and> ''offline_'' @ int_toString now_id @ ''_'' @ rnd \<notin> set (stored_ids (storage s))"
  shows "(\<exists>before after st' st''.
             getOfflineQueue userId (storage s) = (Inr before, st')
           \<and> getOfflineQueue userId (storage (addTransactionToQueue now_id now_ts rnd n s))
               = (Inr after, st'')
           \<and> mset after =
               add_mset \<lparr>ot_id = ''offline_'' @ int_toString now_id @ ''_'' @ rnd,
                          ot_type = nt_type n, ot_amount = nt_amount n,
                          ot_description = nt_description n,
                          ot_recipientDetails = nt_recipientDetails n,
                          ot_metadata = nt_metadata n, ot_timestamp = now_ts,
                          ot_status = queued\<rparr> (mset before)
           \<and> (\<exists>r \<in> set after. ot_type r = nt_type n \<and> ot_amount r = nt_amount n
                 \<and> ot_recipientDetails r = nt_recipientDetails n
                 \<and> ot_id r = ''offline_'' @ int_toString now_id @ ''_'' @ rnd))"
proof -
  let ?q = "queuedTransaction n now_id now_ts rnd"
  let ?st = "storage s"
  let ?s' = "addTransactionToQueue now_id now_ts rnd n s"
  from free have ok: "fst (addOfflineTransaction userId ?q ?st) = Inr ()"
    by (simp add: addOfflineTransaction_succeeds_iff queuedTransaction_def new_id_def)
  let ?st' = "?st\<lparr>db := True, isInitialized := True,
      offlineTransactions := insort_key (\<lambda>r. ot_id (snd r)) (userId, ?q) (offlineTransactions ?st)\<rparr>"
  have st': "storage ?s' = ?st'"
    using u ok addOfflineTransaction_ok(3) [OF ok]
    by (cases "addOfflineTransaction userId ?q ?st")
       (auto simp: addTransactionToQueue_def addToOfflineQueue_def Let_def)
  have us: "store_usable ?st'"
    by (simp add: store_usable_def)
  let ?before = "sort_key (\<lambda>t. - ot_timestamp t)
                   (map snd (filter (\<lambda>r. fst r = userId) (offlineTransactions ?st)))"
  let ?after = "sort_key (\<lambda>t. - ot_timestamp t)
                   (map snd (filter (\<lambda>r. fst r = userId) (offlineTransactions ?st')))"
  have b: "getOfflineQueue userId ?st = (Inr ?before, ?st\<lparr>db := True, isInitialized := True\<rparr>)"
    using free by (simp add: getOfflineQueue_def getOfflineTransactions_usable)
  have a: "getOfflineQueue userId (storage ?s') = (Inr ?after, ?st'\<lparr>db := True, isInitialized := True\<rparr>)"
    unfolding st' getOfflineQueue_def by (rule getOfflineTransactions_usable [OF us])
  have q: "?q = \<lparr>ot_id = ''offline_'' @ int_toString now_id @ ''_'' @ rnd,
                          ot_type = nt_type n, ot_amount = nt_amount n,
                          ot_description = nt_description n,
                          ot_recipientDetails = nt_recipientDetails n,
                          ot_metadata = nt_metadata n, ot_timestamp = now_ts,
                          ot_status = queued\<rparr>"
    by (simp add: queuedTransaction_def new_id_def)
  have m: "mset ?after = add_mset ?q (mset ?before)"
    by simp
  have "?q \<in> set ?after"
    by (simp add: set_insort_key image_iff)
  then have r: "\<exists>r \<in> set ?after. ot_type r = nt_type n \<and> ot_amount r = nt_amount n
                 \<and> ot_recipientDetails r = nt_recipientDetails n
                 \<and> ot_id r = ''offline_'' @ int_toString now_id @ ''_'' @ rnd"
    unfolding q by (rule bexI [rotated]) simp
  show ?thesis
    using a b m r unfolding q by blast
qed

lemma enqueue_refused:
  assumes u: "user s = Some userId"
      and nf: "\<not> (store_usable (storage s)
           \<and> ''offline_'' @ int_toString now_id @ ''_'' @ rnd \<notin> set (stored_ids (storage s)))"
  shows "offlineTransactions (storage (addTransactionToQueue now_id now_ts rnd n s))
             = offlineTransactions (storage s)
         \<and> queuedTransactions (addTransactionToQueue now_id now_ts rnd n s) = queuedTransactions s
         \<and> toasts (addTransactionToQueue now_id now_ts rnd n s) = toasts s @ [''Queue Failed'']"
proof -
  let ?q = "queuedTransaction n now_id now_ts rnd"
  let ?st = "storage s"
  let ?s' = "addTransactionToQueue now_id now_ts rnd n s"
  from nf have no: "\<not> (store_usable ?st \<and> ot_id ?q \<notin> set (stored_ids ?st))"
    by (simp add: queuedTransaction_def new_id_def)
  then obtain e where e: "fst (addOfflineTransaction userId ?q ?st) = Inl e"
    using addOfflineTransaction_refused by blast
  then have ne: "fst (addOfflineTransaction userId ?q ?st) \<noteq> Inr ()"
    by simp
  have "storage ?s' = snd (addOfflineTransaction userId ?q ?st)"
    and l: "queuedTransactions ?s' = queuedTransactions s"
    and t: "toasts ?s' = toasts s @ [''Queue Failed'']"
    using u e
    by (cases "addOfflineTransaction userId ?q ?st";
        simp add: addTransactionToQueue_def addToOfflineQueue_def Let_def)+
  then have "offlineTransactions (storage ?s') = offlineTransactions ?st"
    using addOfflineTransaction_failed [OF ne] by simp
  then show ?thesis
    using l t by simp
qed

text \<open>
  Claim C8, as amended. \<open>addTransactionToQueue\<close> gives the record the id
  \<open>offline_\<close>, the clock reading, \<open>_\<close>, the random suffix. With no user signed in it
  does nothing. With a user signed in, when the store can be used and that id is not
  yet a key of it, the list of the user's records afterwards is the list before plus
  exactly one record: the one with that id, the given type, amount, description,
  recipient details and metadata, the second clock reading as timestamp and status
  \<open>queued\<close>. Otherwise nothing is stored: the store and the hook's list are as before and
  the toast \<open>Queue Failed\<close> is raised.
\<close>

theorem C8_enqueue_then_list_when_stored:
  "(user s = None \<longrightarrow> addTransactionToQueue now_id now_ts rnd n s = s)
   \<and> (user s = Some userId \<longrightarrow>
        (store_usable (storage s)
           \<and> ''offline_'' @ int_toString now_id @ ''_'' @ rnd \<notin> set (stored_ids (storage s)) \<longrightarrow>
         (\<exists>before after st' st''.
             getOfflineQueue userId (storage s) = (Inr before, st')
           \<and> getOfflineQueue userId (storage (addTransactionToQueue now_id now_ts rnd n s))
               = (Inr after, st'')
           \<and> mset after =
               add_mset \<lparr>ot_id = ''offline_'' @ int_toString now_id @ ''_'' @ rnd,
                          ot_type = nt_type n, ot_amount = nt_amount n,
                          ot_description = nt_description n,
                          ot_recipientDetails = nt_recipientDetails n,
                          ot_metadata = nt_metadata n, ot_timestamp = now_ts,
                          ot_status = queued\<rparr> (mset before)
           \<and> (\<exists>r \<in> set after. ot_type r = nt_type n \<and> ot_amount r = nt_amount n
                 \<and> ot_recipientDetails r = nt_recipientDetails n
                 \<and> ot_id r = ''offline_'' @ int_toString now_id @ ''_'' @ rnd)))
      \<and> (\<not> (store_usable (storage s)
           \<and> ''offline_'' @ int_toString now_id @ ''_'' @ rnd \<notin> set (stored_ids (storage s))) \<longrightarrow>
           offlineTransactions (storage (addTransactionToQueue now_id now_ts rnd n s))
             = offlineTransactions (storage s)
         \<and> queuedTransactions (addTransactionToQueue now_id now_ts rnd n s) = queuedTransactions s
         \<and> toasts (addTransactionToQueue now_id now_ts rnd n s) = toasts s @ [''Queue Failed'']))"
proof (rule conjI)
  show "user s = None \<longrightarrow> addTransactionToQueue now_id now_ts rnd n s = s"
    using enqueue_signed_out by blast
next
  show "user s = Some userId \<longrightarrow>
        (store_usable (storage s)
           \<and> ''offline_'' @ int_toString now_id @ ''_'' @ rnd \<notin> set (stored_ids (storage s)) \<longrightarrow>
         (\<exists>before after st' st''.
             getOfflineQueue userId (storage s) = (Inr before, st')
           \<and> getOfflineQueue userId (storage (addTransactionToQueue now_id now_ts rnd n s))
               = (Inr after, st'')
           \<and> mset after =
               add_mset \<lparr>ot_id = ''offline_'' @ int_toString now_id @ ''_'' @ rnd,
                          ot_type = nt_type n, ot_amount = nt_amount n,
                          ot_description = nt_description n,
                          ot_recipientDetails = nt_recipientDetails n,
                          ot_metadata = nt_metadata n, ot_timestamp = now_ts,
                          ot_status = queued\<rparr> (mset before)
           \<and> (\<exists>r \<in> set after. ot_type r = nt_type n \<and> ot_amount r = nt_amount n
                 \<and> ot_recipientDetails r = nt_recipientDetails n
                 \<and> ot_id r = ''offline_'' @ int_toString now_id @ ''_'' @ rnd)))
      \<and> (\<not> (store_usable (storage s)
           \<and> ''offline_'' @ int_toString now_id @ ''_'' @ rnd \<notin> set (stored_ids (storage s))) \<longrightarrow>
           offlineTransactions (storage (addTransactionToQueue now_id now_ts rnd n s))
             = offlineTransactions (storage s)
         \<and> queuedTransactions (addTransactionToQueue now_id now_ts rnd n s) = queuedTransactions s
         \<and> toasts (addTransactionToQueue now_id now_ts rnd n s) = toasts s @ [''Queue Failed''])"
  proof (rule impI)
    assume u: "user s = Some userId"
    show "(store_usable (storage s)
           \<and> ''offline_'' @ int_toString now_id @ ''_'' @ rnd \<notin> set (stored_ids (storage s)) \<longrightarrow>
         (\<exists>before after st' st''.
             getOfflineQueue userId (storage s) = (Inr before, st')
           \<and> getOfflineQueue userId (storage (addTransactionToQueue now_id now_ts rnd n s))
               = (Inr after, st'')
           \<and> mset after =
               add_mset \<lparr>ot_id = ''offline_'' @ int_toString now_id @ ''_'' @ rnd,
                          ot_type = nt_type n, ot_amount = nt_amount n,
                          ot_description = nt_description n,
                          ot_recipientDetails = nt_recipientDetails n,
                          ot_metadata = nt_metadata n, ot_timestamp = now_ts,
                          ot_status = queued\<rparr> (mset before)
           \<and> (\<exists>r \<in> set after. ot_type r = nt_type n \<and> ot_amount r = nt_amount n
                 \<and> ot_recipientDetails r = nt_recipientDetails n
                 \<and> ot_id r = ''offline_'' @ int_toString now_id @ ''_'' @ rnd)))
      \<and> (\<not> (store_usable (storage s)
           \<and> ''offline_'' @ int_toString now_id @ ''_'' @ rnd \<notin> set (stored_ids (storage s))) \<longrightarrow>
           offlineTransactions (storage (addTransactionToQueue now_id now_ts rnd n s))
             = offlineTransactions (storage s)
         \<and> queuedTransactions (addTransactionToQueue now_id now_ts rnd n s) = queuedTransactions s
         \<and> toasts (addTransactionToQueue now_id now_ts rnd n s) = toasts s @ [''Queue Failed''])"
    proof (rule conjI)
      show "store_usable (storage s)
           \<and> ''offline_'' @ int_toString now_id @ ''_'' @ rnd \<notin> set (stored_ids (storage s)) \<longrightarrow>
         (\<exists>before after st' st''.
             getOfflineQueue userId (storage s) = (Inr before, st')
           \<and> getOfflineQueue userId (storage (addTransactionToQueue now_id now_ts rnd n s))
               = (Inr after, st'')
           \<and> mset after =
               add_mset \<lparr>ot_id = ''offline_'' @ int_toString now_id @ ''_'' @ rnd,
                          ot_type = nt_type n, ot_amount = nt_amount n,
                          ot_description = nt_description n,
                          ot_recipientDetails = nt_recipientDetails n,
                          ot_metadata = nt_metadata n, ot_timestamp = now_ts,
                          ot_status = queued\<rparr> (mset before)
           \<and> (\<exists>r \<in> set after. ot_type r = nt_type n \<and> ot_amount r = nt_amount n
                 \<and> ot_recipientDetails r = nt_recipientDetails n
                 \<and> ot_id r = ''offline_'' @ int_toString now_id @ ''_'' @ rnd))"
        using enqueue_stored [OF u] by (rule impI)
    next
      show "\<not> (store_usable (storage s)
           \<and> ''offline_'' @ int_toString now_id @ ''_'' @ rnd \<notin> set (stored_ids (storage s))) \<longrightarrow>
           offlineTransactions (storage (addTransactionToQueue now_id now_ts rnd n s))
             = offlineTransactions (storage s)
         \<and> queuedTransactions (addTransactionToQueue now_id now_ts rnd n s) = queuedTransactions s
         \<and> toasts (addTransactionToQueue now_id now_ts rnd n s) = toasts s @ [''Queue Failed'']"
        using enqueue_refused [OF u] by (rule impI)
    qed
  qed
qed


lemma int_toString_1000: "int_toString 1000 = ''1000''"
  by (simp add: int_toString_def nat_toString.simps digit_char_def)

lemma queued_rent_is_tx_a: "queuedTransaction new_rent 1000 1000 ''aaaaaaaaa'' = tx_a"
  by (simp add: queuedTransaction_def new_id_def int_toString_1000 new_rent_def tx_a_def)

lemma enqueue_rent_fresh:
  "addTransactionToQueue 1000 1000 ''aaaaaaaaa'' new_rent hook_fresh =
     hook_fresh\<lparr>queuedTransactions := [tx_a],
       storage := \<lparr>isInitialized = True, db = True, idb_opens = True,
                   offlineTransactions = [(''user-1'', tx_a)]\<rparr>,
       toasts := [''Transaction Queued'']\<rparr>"
  by (simp add: addTransactionToQueue_def queued_rent_is_tx_a addToOfflineQueue_def
      addOfflineTransaction_def ensureInitialized_def initialize_def hook_fresh_def
      fresh_storage_def stored_ids_def)

theorem C8_enqueue_then_list_when_stored_witness:
  "user hook_fresh = Some ''user-1'' \<and> store_usable (storage hook_fresh)
   \<and> fst (getOfflineQueue ''user-1''
        (storage (addTransactionToQueue 1000 1000 ''aaaaaaaaa'' new_rent hook_fresh))) = Inr [tx_a]
   \<and> ot_id tx_a = ''offline_1000_aaaaaaaaa''
   \<and> user hook_blocked = Some ''user-1'' \<and> \<not> store_usable (storage hook_blocked)
   \<and> toasts (addTransactionToQueue 1000 1000 ''aaaaaaaaa'' new_rent hook_blocked) = [''Queue Failed'']
   \<and> user hook_signed_out = None
   \<and> addTransactionToQueue 1000 1000 ''aaaaaaaaa'' new_rent hook_signed_out = hook_signed_out"
proof -
  have u: "user hook_fresh = Some ''user-1''" and us: "store_usable (storage hook_fresh)"
    and fr: "''offline_'' @ int_toString 1000 @ ''_'' @ ''aaaaaaaaa'' \<notin> set (stored_ids (storage hook_fresh))"
    and b0: "getOfflineQueue ''user-1'' (storage hook_fresh) =
               (Inr [], \<lparr>isInitialized = True, db = True, idb_opens = True, offlineTransactions = []\<rparr>)"
    by (simp_all add: hook_fresh_def fresh_storage_def store_usable_def stored_ids_def
        getOfflineQueue_def getOfflineTransactions_def ensureInitialized_def initialize_def)
  have ub: "user hook_blocked = Some ''user-1''" and nb: "\<not> store_usable (storage hook_blocked)"
    by (simp_all add: hook_blocked_def blocked_storage_def store_usable_def)
  have uo: "user hook_signed_out = None"
    by (simp add: hook_signed_out_def)
  note T1 = C8_enqueue_then_list_when_stored
    [of hook_fresh 1000 1000 "''aaaaaaaaa''" new_rent "''user-1''"]
  note T2 = C8_enqueue_then_list_when_stored
    [of hook_blocked 1000 1000 "''aaaaaaaaa''" new_rent "''user-1''"]
  note T3 = C8_enqueue_then_list_when_stored
    [of hook_signed_out 1000 1000 "''aaaaaaaaa''" new_rent "''user-1''"]
  from T1 u us fr obtain after st'' where
    "getOfflineQueue ''user-1''
        (storage (addTransactionToQueue 1000 1000 ''aaaaaaaaa'' new_rent hook_fresh)) = (Inr after, st'')"
    and "mset after = {#queuedTransaction new_rent 1000 1000 ''aaaaaaaaa''#}"
    unfolding b0 by (auto simp: queuedTransaction_def new_id_def)
  then have l: "fst (getOfflineQueue ''user-1''
        (storage (addTransactionToQueue 1000 1000 ''aaaaaaaaa'' new_rent hook_fresh))) = Inr [tx_a]"
    by (simp add: queued_rent_is_tx_a)
  have t: "toasts (addTransactionToQueue 1000 1000 ''aaaaaaaaa'' new_rent hook_blocked) = [''Queue Failed'']"
    using T2 ub nb by (simp add: hook_blocked_def)
  have o: "addTransactionToQueue 1000 1000 ''aaaaaaaaa'' new_rent hook_signed_out = hook_signed_out"
    using T3 uo by simp
  show ?thesis
    using u us l ub nb t uo o by (simp add: tx_a_def)
qed

text \<open>
  Claim C8 as stated fails for some enqueues. When the store does not open, listing
  after the enqueue is rejected. When the generated id is already a key (same clock
  reading, same random suffix), the second record is not stored: the list has the rent
  transfer only, no airtime purchase. When no user is signed in, nothing is stored.
\<close>

theorem C8_enqueue_not_always_listed:
  "fst (getOfflineQueue ''user-1''
      (storage (addTransactionToQueue 1000 1000 ''aaaaaaaaa'' new_rent hook_blocked)))
     = Inl FailedToOpenIndexedDB
   \<and> fst (getOfflineQueue ''user-1''
        (storage (addTransactionToQueue 1000 1001 ''aaaaaaaaa'' new_airtime
                   (addTransactionToQueue 1000 1000 ''aaaaaaaaa'' new_rent hook_fresh))))
       = Inr [tx_a]
   \<and> ot_type tx_a = bank_transfer \<and> nt_type new_airtime = airtime
   \<and> addTransactionToQueue 1000 1000 ''aaaaaaaaa'' new_rent hook_signed_out = hook_signed_out
   \<and> fst (getOfflineQueue ''user-1'' (storage hook_signed_out)) = Inr []"
proof -
  have a: "fst (getOfflineQueue ''user-1''
      (storage (addTransactionToQueue 1000 1000 ''aaaaaaaaa'' new_rent hook_blocked)))
     = Inl FailedToOpenIndexedDB"
    by (simp add: addTransactionToQueue_def addToOfflineQueue_def addOfflineTransaction_def
        getOfflineQueue_def getOfflineTransactions_def ensureInitialized_def initialize_def
        hook_blocked_def blocked_storage_def)
  have b: "fst (getOfflineQueue ''user-1''
        (storage (addTransactionToQueue 1000 1001 ''aaaaaaaaa'' new_airtime
                   (addTransactionToQueue 1000 1000 ''aaaaaaaaa'' new_rent hook_fresh))))
       = Inr [tx_a]"
    unfolding enqueue_rent_fresh
    by (simp add: addTransactionToQueue_def addToOfflineQueue_def addOfflineTransaction_def
        getOfflineQueue_def getOfflineTransactions_def ensureInitialized_def hook_fresh_def
        stored_ids_def queuedTransaction_def new_id_def int_toString_1000 tx_a_def)
  have c: "addTransactionToQueue 1000 1000 ''aaaaaaaaa'' new_rent hook_signed_out = hook_signed_out"
    by (simp add: addTransactionToQueue_def hook_signed_out_def)
  have d: "fst (getOfflineQueue ''user-1'' (storage hook_signed_out)) = Inr []"
    by (simp add: getOfflineQueue_def getOfflineTransactions_def ensureInitialized_def
        initialize_def hook_signed_out_def fresh_storage_def)
  show ?thesis
    using a b c d by (simp add: tx_a_def new_airtime_def)
qed

section \<open>The queue hook: properties\<close>

























subsection \<open>Uniqueness of ids and changes of status\<close>


















lemma ids_unique_same:
  "distinct (stored_ids (storage a)) \<Longrightarrow> map ot_id (queuedTransactions a) = map ot_id (queuedTransactions b)
     \<Longrightarrow> ids_unique b \<Longrightarrow> ids_unique a"
  by (simp add: ids_unique_def)

























section \<open>The webhook reconciler: properties\<close>

lemma find_none_in_subset:
  assumes "\<forall>x \<in> set xs. \<not> P x" and "set ys \<subseteq> set xs"
  shows "find P ys = None"
  using assms by (auto simp: find_None_iff)

lemma getTransactions_subset: "set (getTransactions userId limit d) \<subseteq> set (transactions d)"
  by (auto simp: getTransactions_def dest: in_set_takeD)

text \<open>
  The lookup of the handler sees only rows whose user id is the empty string: when no
  row has one, it finds nothing, whatever the callback says.
\<close>

lemma squad_webhook_sees_no_owned_row:
  assumes "req_json = JObj fs" and "\<forall>t \<in> set (transactions d). tr_userId t \<noteq> []"
  shows "squad_webhook req_json d = (webhook_processed, d)"
proof -
  have "filter (\<lambda>t. tr_userId t = []) (transactions d) = []"
    using assms(2) by (simp add: filter_empty_conv)
  then have "getTransactions [] 1000 d = []"
    by (simp add: getTransactions_def)
  then show ?thesis
    using assms(1) by (simp add: squad_webhook_def)
qed

text \<open>
  Claim C3: when no transaction row has a \<open>squadReference\<close> equal to the callback's
  \<open>transaction_reference\<close>, the handler leaves the database as it is and answers 200 with
  \<open>Webhook processed\<close>.
\<close>

theorem C3_unknown_reference_is_ignored:
  assumes "req_json = JObj fs"
      and "\<forall>t \<in> set (transactions d).
             \<not> strict_eq (tr_squadReference t) (field req_json ''transaction_reference'')"
  shows "squad_webhook req_json d = (webhook_processed, d) \<and> status webhook_processed = 200"
proof -
  have "find (\<lambda>t. strict_eq (tr_squadReference t) (field req_json ''transaction_reference''))
          (getTransactions [] 1000 d) = None"
    using assms(2) getTransactions_subset by (rule find_none_in_subset)
  then show ?thesis
    using assms(1) by (simp add: squad_webhook_def webhook_processed_def)
qed

theorem C3_unknown_reference_is_ignored_witness:
  "unknown_callback = JObj [(''transaction_reference'', JStr ''SQD_REF_9''),
     (''transaction_status'', JStr ''failed'')]
   \<and> map (\<lambda>t. strict_eq (tr_squadReference t) (field unknown_callback ''transaction_reference''))
         (transactions ownerless_db) = [False]
   \<and> squad_webhook unknown_callback ownerless_db = (webhook_processed, ownerless_db)"
proof -
  have a: "unknown_callback = JObj [(''transaction_reference'', JStr ''SQD_REF_9''),
     (''transaction_status'', JStr ''failed'')]"
    by (simp add: unknown_callback_def)
  have b: "\<forall>t \<in> set (transactions ownerless_db).
         \<not> strict_eq (tr_squadReference t) (field unknown_callback ''transaction_reference'')"
    by (simp add: ownerless_db_def bank_row_def unknown_callback_def field_def)
  have c: "map (\<lambda>t. strict_eq (tr_squadReference t) (field unknown_callback ''transaction_reference''))
         (transactions ownerless_db) = [False]"
    by (simp add: ownerless_db_def bank_row_def unknown_callback_def field_def)
  show ?thesis
    using a c C3_unknown_reference_is_ignored [OF a b] by simp
qed

text \<open>
  Claim C1 (a \<open>failed\<close> callback for a debited transaction credits the amount back and
  marks the transaction failed). The handler looks the reference up among the rows of
  \<open>getTransactions("", 1000)\<close>, the transactions whose user id is the empty string, so
  a transaction of a real user is never found. For the bank transfer of \<open>user-1\<close> with
  reference \<open>SQD_REF_1\<close>, the callback leaves the database unchanged: the balance is
  still 4000.00 and the status still \<open>pending\<close>.
\<close>

theorem C1_failed_callback_leaves_wallet_debited:
  "squad_webhook failed_callback example_db = (webhook_processed, example_db)
   \<and> tr_squadReference bank_row = Some ''SQD_REF_1''
   \<and> getWallet (tr_userId bank_row) (snd (squad_webhook failed_callback example_db))
       = Some \<lparr>wl_userId = ''user-1'', wl_balance = Some 400000\<rparr>
   \<and> map tr_status (transactions (snd (squad_webhook failed_callback example_db))) = [Some Pending]"
  by (simp add: squad_webhook_def failed_callback_def example_db_def bank_row_def field_def
      getTransactions_def getWallet_def)

text \<open>
  The refund branch itself works on a row the lookup can see: with the user id empty,
  the same callback credits 1000.00 and marks the row failed.
\<close>

lemma visible_row_is_refunded:
  "squad_webhook failed_callback ownerless_db =
     (webhook_processed,
      \<lparr>wallets = [\<lparr>wl_userId = [], wl_balance = Some 500000\<rparr>],
       transactions = [bank_row\<lparr>tr_userId := [], tr_status := Some Failed\<rparr>]\<rparr>)"
  by (simp add: squad_webhook_def failed_callback_def ownerless_db_def bank_row_def field_def
      getTransactions_def getWallet_def updateWalletBalance_def updateTransaction_def)

end
